theory Spec2Isabelle
  imports
    Main
    "HOL-Library.Char_ord"
    "HOL-Library.List_Lexorder"
    "HOL-Library.Sublist"
    "HOL-Library.Multiset"
    "HOL-Library.AList"
begin

section \<open>Python strings\<close>

text \<open>
  A Python \<open>str\<close> is modelled as a \<^typ>\<open>string\<close> whose characters are the code points
  U+0000 .. U+00FF, one \<^typ>\<open>char\<close> per code point. The order on strings is the
  lexicographic order on code points, which is how Python compares two \<open>str\<close> values.
\<close>

definition isspace :: "char \<Rightarrow> bool" where
  \<comment> \<open>\<open>str.isspace\<close> on one code point below U+0100.\<close>
  "isspace c = (of_char c \<in> set [9, 10, 11, 12, 13, 28, 29, 30, 31, 32, 133, 160 :: nat])"

definition strip :: "string \<Rightarrow> string" where
  \<comment> \<open>\<open>str.strip()\<close>: leading and trailing whitespace removed.\<close>
  "strip s = rev (dropWhile isspace (rev (dropWhile isspace s)))"

definition lower_char :: "char \<Rightarrow> char" where
  "lower_char c =
     (let n = of_char c :: nat
      in if (65 \<le> n \<and> n \<le> 90) \<or> (192 \<le> n \<and> n \<le> 222 \<and> n \<noteq> 215)
         then char_of (n + 32) else c)"

definition lower :: "string \<Rightarrow> string" where
  \<comment> \<open>\<open>str.lower()\<close>.\<close>
  "lower s = map lower_char s"

definition replace :: "char \<Rightarrow> string \<Rightarrow> string \<Rightarrow> string" where
  \<comment> \<open>\<open>s.replace(old, new)\<close> for a one-character \<open>old\<close>.\<close>
  "replace old new s = concat (map (\<lambda>c. if c = old then new else [c]) s)"

definition html_escape :: "string \<Rightarrow> string" where
  \<comment> \<open>\<open>html.escape(s)\<close> with its default \<open>quote=True\<close>: five replacements, the
      ampersand first.\<close>
  \<open>html_escape s =
     replace (CHR 0x27) ''&#x27;''
       (replace (CHR 0x22) ''&quot;''
         (replace CHR ''>'' ''&gt;''
           (replace CHR ''<'' ''&lt;''
             (replace CHR ''&'' ''&amp;'' s))))\<close>

section \<open>Dates and times\<close>

record datetime =
  year :: nat
  month :: nat
  day :: nat
  hour :: nat
  minute :: nat
  second :: nat
  microsecond :: nat

definition digit :: "nat \<Rightarrow> char" where
  "digit d = char_of (48 + d)"

fun decimal :: "nat \<Rightarrow> string" where
  "decimal n = (if n < 10 then [digit n] else decimal (n div 10) @ [digit (n mod 10)])"

declare decimal.simps [simp del]

definition zero_pad :: "nat \<Rightarrow> nat \<Rightarrow> string" where
  \<comment> \<open>The format \<open>%0wd\<close> on a natural number.\<close>
  "zero_pad w n = replicate (w - length (decimal n)) CHR ''0'' @ decimal n"

definition isoformat :: "datetime \<Rightarrow> string" where
  \<comment> \<open>\<open>datetime.isoformat()\<close> of a naive date-time: the fraction is printed only when the
      microsecond is not zero.\<close>
  "isoformat d =
     zero_pad 4 (year d) @ ''-'' @ zero_pad 2 (month d) @ ''-'' @ zero_pad 2 (day d) @ ''T'' @
     zero_pad 2 (hour d) @ '':'' @ zero_pad 2 (minute d) @ '':'' @ zero_pad 2 (second d) @
     (if microsecond d = 0 then [] else ''.'' @ zero_pad 6 (microsecond d))"

definition strftime :: "datetime \<Rightarrow> string" where
  \<comment> \<open>\<open>strftime('%Y-%m-%d %H:%M:%S')\<close>, the year printed with four digits (a C library
      may print a year below 1000 with fewer).\<close>
  "strftime d =
     zero_pad 4 (year d) @ ''-'' @ zero_pad 2 (month d) @ ''-'' @ zero_pad 2 (day d) @ '' '' @
     zero_pad 2 (hour d) @ '':'' @ zero_pad 2 (minute d) @ '':'' @ zero_pad 2 (second d)"

section \<open>Entries, the persisted document and the user interface\<close>

record entry =
  timestamp :: string
  operation :: string
  "text" :: string

datatype pyerr =
    FileNotFoundError
  | JSONDecodeError
  | UnicodeDecodeError
  | RecursionError
  | PermissionError
  | AttributeError
  | KeyError
  | TypeError
  | ValueError

text \<open>
  An element of a parsed array, as the sort key \<open>x['timestamp']\<close> sees it: an object with
  the string fields \<open>timestamp\<close>, \<open>operation\<close> and \<open>text\<close>; an object without the key
  \<open>timestamp\<close>; a value that is not an object (a number, a string, an array, \<open>true\<close>,
  \<open>false\<close> or \<open>null\<close>). Objects that have a \<open>timestamp\<close> but not the three string fields are
  outside the model.
\<close>

datatype element = Entry entry | NoTimestamp | NotObject

text \<open>
  What \<open>changelog.json\<close> holds, as \<open>os.path.exists\<close>, \<open>open\<close> and \<open>json.load\<close> see it:
  no file; a file on which \<open>open\<close> or \<open>json.load\<close> raises an exception
  (\<open>JSONDecodeError\<close> for text that is not JSON, \<open>UnicodeDecodeError\<close> for bytes that are
  not UTF-8, \<open>RecursionError\<close> for nesting that is too deep, \<open>PermissionError\<close> for a file
  that may not be read); a file that parses to a JSON value other than an array (an object,
  a string, a number, \<open>true\<close>, \<open>false\<close> or \<open>null\<close>); a file that parses to an array.
  \<open>Entries es\<close> is the array of the entries \<open>es\<close>, which is what \<open>save_changelog\<close> writes.
\<close>

datatype document = Missing | Unreadable pyerr | NonArray | Array "element list"

abbreviation Entries :: "entry list \<Rightarrow> document" where
  "Entries es \<equiv> Array (map Entry es)"

datatype dialog =
    ShowWarning string string
  | ShowError string string
  | ShowInfo string string

text \<open>
  The state the functions act on: the changelog document, the message boxes shown so far
  (oldest first) and the report files written so far, by path.
\<close>

record world =
  document :: document
  dialogs :: "dialog list"
  reports :: "(string \<times> string) list"

definition messagebox :: "dialog \<Rightarrow> world \<Rightarrow> world" where
  "messagebox d w = w\<lparr>dialogs := dialogs w @ [d]\<rparr>"

section \<open>Core logic\<close>

definition sort_reverse :: "('a \<Rightarrow> 'k::linorder) \<Rightarrow> 'a list \<Rightarrow> 'a list" where
  \<comment> \<open>\<open>list.sort(key=..., reverse=True)\<close>: the list is reversed, sorted by a stable sort
      and reversed again.\<close>
  "sort_reverse key xs = rev (sort_key key (rev xs))"

fun sort_keys :: "element list \<Rightarrow> pyerr + entry list" where
  \<comment> \<open>The key \<open>x['timestamp']\<close> taken of every element in turn, which \<open>list.sort\<close> does
      before it compares: the entries, or the exception at the first element without the
      key.\<close>
  "sort_keys [] = Inr []"
| "sort_keys (Entry e # xs) =
     (case sort_keys xs of Inl err \<Rightarrow> Inl err | Inr es \<Rightarrow> Inr (e # es))"
| "sort_keys (NoTimestamp # xs) = Inl KeyError"
| "sort_keys (NotObject # xs) = Inl TypeError"

fun read_and_sort :: "document \<Rightarrow> pyerr + entry list" where
  \<comment> \<open>The body of the \<open>try\<close> statement of \<open>load_changelog\<close>: open, \<open>json.load\<close>, sort.\<close>
  "read_and_sort Missing = Inl FileNotFoundError"
| "read_and_sort (Unreadable e) = Inl e"
| "read_and_sort NonArray = Inl AttributeError"
| "read_and_sort (Array xs) =
     (case sort_keys xs of
        Inl e \<Rightarrow> Inl e
      | Inr entries \<Rightarrow> Inr (sort_reverse timestamp entries))"

definition load_changelog :: "document \<Rightarrow> pyerr + entry list" where
  \<comment> \<open>The \<open>except\<close> clause names two exceptions; every other one leaves the function.\<close>
  "load_changelog d =
     (if d = Missing then Inr []
      else
        (case read_and_sort d of
           Inl e \<Rightarrow> if e = JSONDecodeError \<or> e = FileNotFoundError then Inr [] else Inl e
         | Inr entries \<Rightarrow> Inr entries))"

definition save_changelog :: "entry list \<Rightarrow> world \<Rightarrow> world" where
  "save_changelog entries w = w\<lparr>document := Entries entries\<rparr>"

definition add_entry ::
  "datetime \<Rightarrow> string \<Rightarrow> string \<Rightarrow> world \<Rightarrow> (pyerr + bool) \<times> world" where
  \<comment> \<open>The first argument is the reading of \<open>datetime.datetime.now()\<close>.\<close>
  "add_entry now op txt w =
     (if strip txt = [] then
        (Inr False, messagebox (ShowWarning ''Input Error'' ''Changelog text cannot be empty.'') w)
      else
        (case load_changelog (document w) of
           Inl e \<Rightarrow> (Inl e, w)
         | Inr entries \<Rightarrow>
             (Inr True,
              save_changelog
                (entries @ [\<lparr>timestamp = isoformat now, operation = op, text = txt\<rparr>]) w)))"

fun edit_loop :: "string \<Rightarrow> string \<Rightarrow> string \<Rightarrow> entry list \<Rightarrow> bool \<times> entry list" where
  \<comment> \<open>The \<open>for\<close> loop of \<open>edit_entry\<close>, which stops at the first match: the flag
      \<open>entry_found\<close> and the list after the loop.\<close>
  "edit_loop ts new_operation new_text [] = (False, [])"
| "edit_loop ts new_operation new_text (e # es) =
     (if timestamp e = ts then (True, e\<lparr>operation := new_operation, text := new_text\<rparr> # es)
      else (case edit_loop ts new_operation new_text es of
              (entry_found, es') \<Rightarrow> (entry_found, e # es')))"

definition edit_entry ::
  "string \<Rightarrow> string \<Rightarrow> string \<Rightarrow> world \<Rightarrow> (pyerr + bool) \<times> world" where
  "edit_entry ts new_operation new_text w =
     (if strip new_text = [] then
        (Inr False, messagebox (ShowWarning ''Input Error'' ''Changelog text cannot be empty.'') w)
      else
        (case load_changelog (document w) of
           Inl e \<Rightarrow> (Inl e, w)
         | Inr entries \<Rightarrow>
             (case edit_loop ts new_operation new_text entries of
                (entry_found, entries') \<Rightarrow>
                  if entry_found then (Inr True, save_changelog entries' w)
                  else
                    (Inr False,
                     messagebox
                       (ShowError ''Error''
                          ''Could not find the entry to edit. It may have been deleted.'') w))))"

definition delete_entry :: "string \<Rightarrow> world \<Rightarrow> (pyerr + bool) \<times> world" where
  "delete_entry ts w =
     (case load_changelog (document w) of
        Inl e \<Rightarrow> (Inl e, w)
      | Inr entries \<Rightarrow>
          (let entries_to_keep = filter (\<lambda>entry. timestamp entry \<noteq> ts) entries
           in if length entries = length entries_to_keep then
                (Inr False,
                 messagebox (ShowError ''Error'' ''Could not find the entry to delete.'') w)
              else (Inr True, save_changelog entries_to_keep w)))"

section \<open>HTML generation\<close>

definition entry_block :: "entry \<Rightarrow> string \<Rightarrow> string" where
  \<comment> \<open>The text one turn of the loop of \<open>generate_html_file\<close> adds to \<open>html_content\<close>, from
      the entry and its formatted date.\<close>
  \<open>entry_block entry formatted_date =
     (let op_class = lower (operation entry);
          safe_text = html_escape (text entry)
      in ''\<newline>        <div class="entry">\<newline>            <span class="tag '' @ op_class @ ''">'' @
         operation entry @ ''</span>\<newline>            <span class="text">'' @ safe_text @
         ''</span>\<newline>            <span class="date">'' @ formatted_date @
         ''</span>\<newline>        </div>\<newline>        '')\<close>

fun html_loop ::
  "(string \<Rightarrow> datetime option) \<Rightarrow> entry list \<Rightarrow> string \<Rightarrow> pyerr + string" where
  \<comment> \<open>The loop over the entries, from a given \<open>html_content\<close>. The first argument is
      \<open>datetime.datetime.fromisoformat\<close>, which gives \<open>None\<close> where it raises \<open>ValueError\<close>.\<close>
  "html_loop fromisoformat [] html_content = Inr html_content"
| "html_loop fromisoformat (entry # entries) html_content =
     (case fromisoformat (timestamp entry) of
        None \<Rightarrow> Inl ValueError
      | Some ts \<Rightarrow>
          html_loop fromisoformat entries (html_content @ entry_block entry (strftime ts)))"

definition html_template_head :: string where
  \<comment> \<open>The template of \<open>generate_html_file\<close> up to the place of \<open>html_content\<close>.\<close>
  \<open>html_template_head =
     ''\<newline><!DOCTYPE html><html lang="en"><head><meta charset="UTF-8">'' @
     ''<meta name="viewport" content="width=device-width, initial-scale=1.0"><title>'' @
     ''Changelog</title>\<newline><style>'' @
     ''body{font-family:-apple-system,BlinkMacSystemFont,"Segoe UI",Roboto,Helvetica,Ar'' @
     ''ial,sans-serif;line-height:1.6;background-color:#f4f7f9;color:#333;margin:0;'' @
     ''padding:2em;}'' @
     ''.container{max-width:800px;margin:0 auto;background-color:#ffffff;padding:2em;'' @
     ''border-radius:8px;box-shadow:0 4px 12px rgba(0,0,0,0.08);}'' @
     ''h1{color:#1a253c;border-bottom:2px solid #eef2f5;padding-bottom:0.5em;margin-top:0;}'' @
     ''.entry{padding:1em 0;border-bottom:1px solid #eef2f5;display:flex;'' @
     ''align-items:flex-start;flex-wrap:wrap;}.entry:last-child{border-bottom:none;}'' @
     ''.tag{font-weight:600;padding:0.2em 0.6em;border-radius:12px;color:#fff;'' @
     ''font-size:0.85em;margin-right:1em;flex-shrink:0;}'' @
     ''.tag.created{background-color:#28a745;}.tag.edited{background-color:#007bff;}'' @
     ''.tag.deleted{background-color:#dc3545;}'' @
     ''.text{flex-grow:1;word-break:break-word;}'' @
     ''.date{font-size:0.8em;color:#888;margin-left:1.5em;flex-shrink:0;align-self:center;}'' @
     ''@media (max-width:600px){.entry{flex-direction:column;align-items:flex-start;}'' @
     ''.date{margin-left:0;margin-top:0.5em;}}\<newline></style></head><body>'' @
     ''<div class="container"><h1>Project Changelog</h1>''\<close>

definition html_template :: "string \<Rightarrow> string" where
  \<open>html_template html_content =
     html_template_head @ html_content @ ''</div></body></html>''\<close>

definition generate_html_file ::
  "(string \<Rightarrow> datetime option) \<Rightarrow> string \<Rightarrow> string option \<Rightarrow> world \<Rightarrow> (pyerr + unit) \<times> world"
  where
  \<comment> \<open>Besides \<open>fromisoformat\<close>, the arguments are the path that the save-as dialog returns
      (empty when the user cancels) and the outcome of writing the file: \<open>None\<close> when it
      succeeds, the text of the exception when opening the file fails.\<close>
  \<open>generate_html_file fromisoformat filepath write_error w =
     (case load_changelog (document w) of
        Inl e \<Rightarrow> (Inl e, w)
      | Inr entries \<Rightarrow>
          if entries = [] then
            (Inr (),
             messagebox (ShowInfo ''No Data'' ''Changelog is empty. Add some entries first.'') w)
          else
            (case html_loop fromisoformat entries [] of
               Inl e \<Rightarrow> (Inl e, w)
             | Inr html_content \<Rightarrow>
                 if filepath = [] then (Inr (), w)
                 else
                   (case write_error of
                      None \<Rightarrow>
                        (Inr (),
                         messagebox
                           (ShowInfo ''Success''
                              (''Changelog successfully generated at:\<newline>'' @ filepath))
                           (w\<lparr>reports :=
                                AList.update filepath (html_template html_content) (reports w)\<rparr>))
                    | Some e \<Rightarrow>
                        (Inr (),
                         messagebox
                           (ShowError ''Error'' (''Failed to save HTML file: '' @ e)) w))))\<close>

section \<open>Notions used to state the properties\<close>

text \<open>
  Reading a timestamp back. \<open>parse_isoformat\<close> accepts the two shapes that \<open>isoformat\<close>
  prints, \<open>YYYY-MM-DDTHH:MM:SS\<close> and \<open>YYYY-MM-DDTHH:MM:SS.ffffff\<close>, with every field in
  the range of a \<open>datetime\<close> object, and gives the date-time that the string denotes. In a
  pattern the letter \<open>d\<close> stands for one decimal digit.
\<close>

definition is_digit :: "char \<Rightarrow> bool" where
  "is_digit c = (48 \<le> (of_char c :: nat) \<and> (of_char c :: nat) \<le> 57)"

fun matches :: "string \<Rightarrow> string \<Rightarrow> bool" where
  "matches [] [] = True"
| "matches (p # ps) (c # cs) = ((if p = CHR ''d'' then is_digit c else c = p) \<and> matches ps cs)"
| "matches _ _ = False"

definition number :: "string \<Rightarrow> nat" where
  "number s = foldl (\<lambda>n c. 10 * n + (of_char c - 48)) 0 s"

definition days_in_month :: "nat \<Rightarrow> nat \<Rightarrow> nat" where
  "days_in_month y m =
     (if m = 2 then (if y mod 4 = 0 \<and> (y mod 100 \<noteq> 0 \<or> y mod 400 = 0) then 29 else 28)
      else if m \<in> set [4, 6, 9, 11] then 30 else 31)"

definition valid_datetime :: "datetime \<Rightarrow> bool" where
  "valid_datetime d =
     (1 \<le> year d \<and> year d \<le> 9999 \<and> 1 \<le> month d \<and> month d \<le> 12 \<and>
      1 \<le> day d \<and> day d \<le> days_in_month (year d) (month d) \<and>
      hour d < 24 \<and> minute d < 60 \<and> second d < 60 \<and> microsecond d < 1000000)"

definition parse_isoformat :: "string \<Rightarrow> datetime option" where
  "parse_isoformat s =
     (if matches ''dddd-dd-ddTdd:dd:dd'' s \<or> matches ''dddd-dd-ddTdd:dd:dd.dddddd'' s then
        (let d = \<lparr>year = number (take 4 s), month = number (take 2 (drop 5 s)),
                  day = number (take 2 (drop 8 s)), hour = number (take 2 (drop 11 s)),
                  minute = number (take 2 (drop 14 s)), second = number (take 2 (drop 17 s)),
                  microsecond = number (drop 20 s)\<rparr>
         in if valid_datetime d then Some d else None)
      else None)"

text \<open>
  What \<open>html.escape\<close> is to do to one character, and the characters that open or close a
  tag or an attribute value.
\<close>

definition escape_char :: "char \<Rightarrow> string" where
  \<open>escape_char c =
     (if c = CHR ''&'' then ''&amp;''
      else if c = CHR ''<'' then ''&lt;''
      else if c = CHR ''>'' then ''&gt;''
      else if c = CHR 0x22 then ''&quot;''
      else if c = CHR 0x27 then ''&#x27;''
      else [c])\<close>

definition markup :: "char set" where
  \<open>markup = {CHR ''<'', CHR ''>'', CHR 0x22, CHR 0x27}\<close>

section \<open>Decimal numbers and timestamps\<close>

lemma is_digit_digit: "d < 10 \<Longrightarrow> is_digit (digit d)"
  by (simp add: is_digit_def digit_def)

lemma number_snoc: "number (s @ [c]) = 10 * number s + (of_char c - 48)"
  by (simp add: number_def)

lemma number_decimal: "number (decimal n) = n"
proof (induction n rule: decimal.induct)
  case (1 n)
  show ?case
  proof (cases "n < 10")
    case True
    then show ?thesis
      by (subst decimal.simps) (simp add: number_def digit_def)
  next
    case False
    have "number (decimal n) = 10 * number (decimal (n div 10)) + (of_char (digit (n mod 10)) - 48)"
      using False by (subst decimal.simps) (simp add: number_snoc)
    also have "\<dots> = 10 * (n div 10) + n mod 10"
      using 1 False by (simp add: digit_def)
    finally show ?thesis by simp
  qed
qed

lemma number_zeros: "number (replicate k CHR ''0'' @ s) = number s"
proof -
  have "foldl (\<lambda>n c. 10 * n + (of_char c - 48)) 0 (replicate k CHR ''0'') = (0::nat)"
    by (induction k) simp_all
  then show ?thesis by (simp add: number_def)
qed

lemma number_zero_pad: "number (zero_pad w n) = n"
  by (simp add: zero_pad_def number_zeros number_decimal)

lemma digits_decimal: "list_all is_digit (decimal n)"
proof (induction n rule: decimal.induct)
  case (1 n)
  show ?case
  proof (cases "n < 10")
    case True
    then show ?thesis by (subst decimal.simps) (simp add: is_digit_digit)
  next
    case False
    then show ?thesis using 1 by (subst decimal.simps) (simp add: is_digit_digit)
  qed
qed

lemma digits_zero_pad: "list_all is_digit (zero_pad w n)"
  using digits_decimal [of n] by (auto simp: zero_pad_def list_all_iff is_digit_def)

lemma length_decimal: "0 < w \<Longrightarrow> n < 10 ^ w \<Longrightarrow> length (decimal n) \<le> w"
proof (induction n arbitrary: w rule: decimal.induct)
  case (1 n)
  show ?case
  proof (cases "n < 10")
    case True
    then show ?thesis using "1.prems" by (subst decimal.simps) simp
  next
    case False
    obtain v where w: "w = Suc v" using "1.prems"(1) by (cases w) auto
    have "v \<noteq> 0" using False "1.prems"(2) w by (cases v) auto
    moreover have "n div 10 < 10 ^ v" using "1.prems"(2) w by (simp add: less_mult_imp_div_less mult.commute)
    ultimately have "length (decimal (n div 10)) \<le> v" using "1.IH" [of v] False by simp
    then show ?thesis using False w by (subst decimal.simps) simp
  qed
qed

lemma length_zero_pad: "0 < w \<Longrightarrow> n < 10 ^ w \<Longrightarrow> length (zero_pad w n) = w"
  using length_decimal [of w n] by (simp add: zero_pad_def)

lemma four_digits:
  "length s = 4 \<Longrightarrow> list_all is_digit s \<Longrightarrow>
   \<exists>a b c d. s = [a, b, c, d] \<and> is_digit a \<and> is_digit b \<and> is_digit c \<and> is_digit d"
  by (auto simp: numeral_eq_Suc length_Suc_conv)

lemma two_digits:
  "length s = 2 \<Longrightarrow> list_all is_digit s \<Longrightarrow> \<exists>a b. s = [a, b] \<and> is_digit a \<and> is_digit b"
  by (auto simp: numeral_eq_Suc length_Suc_conv)

lemma six_digits:
  "length s = 6 \<Longrightarrow> list_all is_digit s \<Longrightarrow>
   \<exists>a b c d e f. s = [a, b, c, d, e, f] \<and>
     is_digit a \<and> is_digit b \<and> is_digit c \<and> is_digit d \<and> is_digit e \<and> is_digit f"
  by (auto simp: numeral_eq_Suc length_Suc_conv)

lemma days_in_month_le: "days_in_month y m \<le> 31"
  by (simp add: days_in_month_def)

lemma parse_isoformat_isoformat:
  assumes "valid_datetime d"
  shows "parse_isoformat (isoformat d) = Some d"
proof -
  have r: "year d < 10 ^ 4" "month d < 10 ^ 2" "day d < 10 ^ 2" "hour d < 10 ^ 2"
    "minute d < 10 ^ 2" "second d < 10 ^ 2" "microsecond d < 10 ^ 6"
    using assms days_in_month_le [of "year d" "month d"] by (auto simp: valid_datetime_def)
  have len: "length (zero_pad 4 (year d)) = 4" "length (zero_pad 2 (month d)) = 2"
    "length (zero_pad 2 (day d)) = 2" "length (zero_pad 2 (hour d)) = 2"
    "length (zero_pad 2 (minute d)) = 2" "length (zero_pad 2 (second d)) = 2"
    "length (zero_pad 6 (microsecond d)) = 6"
    using r by (simp_all add: length_zero_pad)
  obtain y1 y2 y3 y4 where y: "zero_pad 4 (year d) = [y1, y2, y3, y4]"
    "is_digit y1" "is_digit y2" "is_digit y3" "is_digit y4"
    using four_digits [OF len(1) digits_zero_pad] by blast
  obtain m1 m2 where m: "zero_pad 2 (month d) = [m1, m2]" "is_digit m1" "is_digit m2"
    using two_digits [OF len(2) digits_zero_pad] by blast
  obtain d1 d2 where dd: "zero_pad 2 (day d) = [d1, d2]" "is_digit d1" "is_digit d2"
    using two_digits [OF len(3) digits_zero_pad] by blast
  obtain h1 h2 where h: "zero_pad 2 (hour d) = [h1, h2]" "is_digit h1" "is_digit h2"
    using two_digits [OF len(4) digits_zero_pad] by blast
  obtain n1 n2 where n: "zero_pad 2 (minute d) = [n1, n2]" "is_digit n1" "is_digit n2"
    using two_digits [OF len(5) digits_zero_pad] by blast
  obtain s1 s2 where s: "zero_pad 2 (second d) = [s1, s2]" "is_digit s1" "is_digit s2"
    using two_digits [OF len(6) digits_zero_pad] by blast
  obtain u1 u2 u3 u4 u5 u6 where u: "zero_pad 6 (microsecond d) = [u1, u2, u3, u4, u5, u6]"
    "is_digit u1" "is_digit u2" "is_digit u3" "is_digit u4" "is_digit u5" "is_digit u6"
    using six_digits [OF len(7) digits_zero_pad] by blast
  have num: "number [y1, y2, y3, y4] = year d" "number [m1, m2] = month d"
    "number [d1, d2] = day d" "number [h1, h2] = hour d" "number [n1, n2] = minute d"
    "number [s1, s2] = second d" "number [u1, u2, u3, u4, u5, u6] = microsecond d"
    using number_zero_pad [of 4 "year d"] number_zero_pad [of 2 "month d"]
      number_zero_pad [of 2 "day d"] number_zero_pad [of 2 "hour d"]
      number_zero_pad [of 2 "minute d"] number_zero_pad [of 2 "second d"]
      number_zero_pad [of 6 "microsecond d"]
    by (simp_all only: y m dd h n s u)
  have nil: "number [] = 0" by (simp add: number_def)
  show ?thesis
  proof (cases "microsecond d = 0")
    case True
    then have eq: "\<lparr>year = year d, month = month d, day = day d, hour = hour d,
        minute = minute d, second = second d, microsecond = 0\<rparr> = d"
      by (cases d) simp
    have "matches ''dddd-dd-ddTdd:dd:dd'' (isoformat d)"
      using True y(2-) m(2-) dd(2-) h(2-) n(2-) s(2-)
      by (simp add: isoformat_def y(1) m(1) dd(1) h(1) n(1) s(1))
    then show ?thesis
      using True assms
      by (simp add: parse_isoformat_def isoformat_def y(1) m(1) dd(1) h(1) n(1) s(1) num nil
          eq Let_def)
  next
    case False
    have eq: "\<lparr>year = year d, month = month d, day = day d, hour = hour d,
        minute = minute d, second = second d, microsecond = microsecond d\<rparr> = d"
      by (cases d) simp
    have "matches ''dddd-dd-ddTdd:dd:dd.dddddd'' (isoformat d)"
      using False y(2-) m(2-) dd(2-) h(2-) n(2-) s(2-) u(2-)
      by (simp add: isoformat_def y(1) m(1) dd(1) h(1) n(1) s(1) u(1))
    then show ?thesis
      using False assms
      by (simp add: parse_isoformat_def isoformat_def y(1) m(1) dd(1) h(1) n(1) s(1) u(1) num
          eq Let_def)
  qed
qed

section \<open>Sorting newest first\<close>

lemma sort_keys_Entries [simp]: "sort_keys (map Entry es) = Inr es"
  by (induction es) simp_all

lemma sort_keys_append [simp]:
  "sort_keys (map Entry es @ xs) =
     (case sort_keys xs of Inl e \<Rightarrow> Inl e | Inr es' \<Rightarrow> Inr (es @ es'))"
  by (induction es) (simp_all split: sum.splits)

lemma sort_keys_Inl: "sort_keys xs = Inl e \<Longrightarrow> e = KeyError \<or> e = TypeError"
proof (induction xs)
  case Nil
  then show ?case by simp
next
  case (Cons x xs)
  then show ?case by (cases x) (auto split: sum.splits)
qed

lemma load_changelog_simps [simp]:
  "load_changelog Missing = Inr []"
  "load_changelog (Unreadable e) =
     (if e = JSONDecodeError \<or> e = FileNotFoundError then Inr [] else Inl e)"
  "load_changelog NonArray = Inl AttributeError"
  "load_changelog (Array xs) =
     (case sort_keys xs of Inl e \<Rightarrow> Inl e | Inr es \<Rightarrow> Inr (sort_reverse timestamp es))"
  by (auto simp: load_changelog_def split: sum.splits dest: sort_keys_Inl)

lemma sort_reverse_descending:
  "sorted_wrt (\<lambda>a b. key b \<le> key a) (sort_reverse key xs)"
proof -
  have "sorted (map key (sort_key key (rev xs)))" by simp
  then have "sorted_wrt (\<lambda>a b. key a \<le> key b) (sort_key key (rev xs))"
    by (simp add: sorted_map)
  then show ?thesis
    by (simp add: sort_reverse_def sorted_wrt_rev)
qed

lemma mset_sort_reverse: "mset (sort_reverse key xs) = mset xs"
  by (simp add: sort_reverse_def)

lemma set_sort_reverse: "set (sort_reverse key xs) = set xs"
  by (simp add: sort_reverse_def)

lemma sort_reverse_id:
  assumes "sorted_wrt (\<lambda>a b. key b \<le> key a) xs"
  shows "sort_reverse key xs = xs"
proof -
  have "sorted_wrt (\<lambda>a b. key a \<le> key b) (rev xs)"
    using assms by (simp add: sorted_wrt_rev)
  then have "sorted (map key (rev xs))" by (simp add: sorted_map)
  then have "sort_key key (rev xs) = rev xs" by (rule sort_key_id_if_sorted)
  then show ?thesis by (simp add: sort_reverse_def)
qed

lemma load_changelog_descending:
  "load_changelog d = Inr es \<Longrightarrow> sorted_wrt (\<lambda>a b. timestamp b \<le> timestamp a) es"
  by (cases d) (auto simp: sort_reverse_descending split: sum.splits if_splits)

lemma load_changelog_Entries_id:
  "sorted_wrt (\<lambda>a b. timestamp b \<le> timestamp a) es \<Longrightarrow> load_changelog (Entries es) = Inr es"
  by (simp add: sort_reverse_id)

section \<open>The edit loop and the filter of delete\<close>

lemma edit_loop_not_found:
  "ts \<notin> timestamp ` set es \<Longrightarrow> edit_loop ts op txt es = (False, es)"
  by (induction es) auto

lemma edit_loop_found:
  "ts \<in> timestamp ` set es \<Longrightarrow>
   \<exists>i < length es. timestamp (es ! i) = ts \<and> (\<forall>j < i. timestamp (es ! j) \<noteq> ts) \<and>
     edit_loop ts op txt es = (True, es[i := (es ! i)\<lparr>operation := op, text := txt\<rparr>])"
proof (induction es)
  case Nil
  then show ?case by simp
next
  case (Cons e es)
  show ?case
  proof (cases "timestamp e = ts")
    case True
    then show ?thesis by (intro exI [of _ 0]) simp
  next
    case False
    then have "ts \<in> timestamp ` set es" using Cons.prems by auto
    then obtain i where i: "i < length es" "timestamp (es ! i) = ts"
      "\<forall>j < i. timestamp (es ! j) \<noteq> ts"
      "edit_loop ts op txt es = (True, es[i := (es ! i)\<lparr>operation := op, text := txt\<rparr>])"
      using Cons.IH by blast
    have "\<forall>j < Suc i. timestamp ((e # es) ! j) \<noteq> ts"
      using False i(3) by (auto simp: nth_Cons split: nat.splits)
    then show ?thesis
      using False i by (intro exI [of _ "Suc i"]) simp
  qed
qed

lemma sorted_wrt_update_same_key:
  assumes "sorted_wrt (\<lambda>a b. key b \<le> key a) xs" "i < length xs" "key x = key (xs ! i)"
  shows "sorted_wrt (\<lambda>a b. key b \<le> key a) (xs[i := x])"
proof -
  have "map key (xs[i := x]) = map key xs"
    using assms(2,3) by (simp add: map_update list_update_same_conv)
  moreover have "sorted_wrt (\<lambda>a b. b \<le> a) (map key xs)"
    using assms(1) by (simp add: sorted_wrt_map)
  ultimately have "sorted_wrt (\<lambda>a b. b \<le> a) (map key (xs[i := x]))" by simp
  then show ?thesis by (simp add: sorted_wrt_map)
qed

lemma filter_length_eq_iff:
  "length (filter P xs) = length xs \<longleftrightarrow> (\<forall>x \<in> set xs. P x)"
proof (induction xs)
  case Nil
  then show ?case by simp
next
  case (Cons x xs)
  have "length (filter P xs) \<noteq> Suc (length xs)"
    using length_filter_le [of P xs] by linarith
  then show ?case using Cons by auto
qed

section \<open>Escaping and the report\<close>

lemma replace_append: "replace old new (a @ b) = replace old new a @ replace old new b"
  by (simp add: replace_def)

lemma html_escape_single: "html_escape [c] = escape_char c"
  by (simp add: html_escape_def replace_def escape_char_def)

lemma html_escape_append: "html_escape (a @ b) = html_escape a @ html_escape b"
  by (simp add: html_escape_def replace_append)

lemma html_escape_Nil: "html_escape [] = []"
  by (simp add: html_escape_def replace_def)

lemma html_escape_chars: "html_escape s = concat (map escape_char s)"
proof (induction s)
  case Nil
  then show ?case by (simp add: html_escape_Nil)
next
  case (Cons c s)
  have "html_escape (c # s) = html_escape ([c] @ s)" by simp
  also have "\<dots> = escape_char c @ html_escape s"
    by (simp only: html_escape_append html_escape_single)
  finally show ?case using Cons by simp
qed

lemma escape_char_no_markup: "set (escape_char c) \<inter> markup = {}"
  by (simp add: escape_char_def markup_def)

lemma html_escape_no_markup: "set (html_escape s) \<inter> markup = {}"
  using escape_char_no_markup by (auto simp: html_escape_chars)

lemma html_loop_eq:
  "html_loop p es acc =
     (if \<forall>e \<in> set es. p (timestamp e) \<noteq> None
      then Inr (acc @ concat (map (\<lambda>e. entry_block e (strftime (the (p (timestamp e))))) es))
      else Inl ValueError)"
  by (induction es arbitrary: acc) (auto split: option.splits)

lemma sublist_concat_map: "x \<in> set xs \<Longrightarrow> sublist (f x) (concat (map f xs))"
proof -
  assume "x \<in> set xs"
  then obtain ys zs where "xs = ys @ x # zs" by (auto dest: split_list)
  then have "concat (map f xs) = concat (map f ys) @ f x @ concat (map f zs)" by simp
  then show ?thesis unfolding sublist_def by blast
qed

lemma sublist_trans: "sublist xs ys \<Longrightarrow> sublist ys zs \<Longrightarrow> sublist xs zs"
  by (rule sublist_order.order_trans)

lemma sublist_html_template: "sublist c (html_template c)"
  by (simp add: html_template_def)

lemma html_loop_block:
  assumes "html_loop p es [] = Inr content" "e \<in> set es"
  shows "\<exists>d. p (timestamp e) = Some d \<and> sublist (entry_block e (strftime d)) (html_template content)"
proof -
  have all: "\<forall>e \<in> set es. p (timestamp e) \<noteq> None"
    and c: "content = concat (map (\<lambda>e. entry_block e (strftime (the (p (timestamp e))))) es)"
    using assms(1) by (simp_all add: html_loop_eq split: if_splits)
  obtain d where d: "p (timestamp e) = Some d" using all assms(2) by auto
  have "sublist (entry_block e (strftime d)) content"
    using sublist_concat_map [OF assms(2), of "\<lambda>e. entry_block e (strftime (the (p (timestamp e))))"]
    by (simp add: c d)
  then show ?thesis using d sublist_html_template sublist_trans by blast
qed

lemma generate_html_file_written:
  assumes "load_changelog (document w) = Inr es" "es \<noteq> []"
    "html_loop p es [] = Inr content" "filepath \<noteq> []"
  shows "generate_html_file p filepath None w =
     (Inr (),
      w\<lparr>reports := AList.update filepath (html_template content) (reports w),
        dialogs := dialogs w @
          [ShowInfo ''Success'' (''Changelog successfully generated at:\<newline>'' @ filepath)]\<rparr>)"
  using assms by (simp add: generate_html_file_def messagebox_def)

lemma sublist_text_span:
  \<open>sublist (''<span class="text">'' @ html_escape (text e) @ ''</span>'') (entry_block e d)\<close>
  unfolding sublist_def entry_block_def Let_def
  by (rule exI [of _ \<open>''\<newline>        <div class="entry">\<newline>            <span class="tag '' @
        lower (operation e) @ ''">'' @ operation e @ ''</span>\<newline>            ''\<close>],
      rule exI [of _ \<open>''\<newline>            <span class="date">'' @ d @
        ''</span>\<newline>        </div>\<newline>        ''\<close>]) simp

lemma sublist_tag_span:
  \<open>sublist (''<span class="tag '' @ lower (operation e) @ ''">'' @ operation e @ ''</span>'')
     (entry_block e d)\<close>
  unfolding sublist_def entry_block_def Let_def
  by (rule exI [of _ \<open>''\<newline>        <div class="entry">\<newline>            ''\<close>],
      rule exI [of _ \<open>''\<newline>            <span class="text">'' @ html_escape (text e) @
        ''</span>\<newline>            <span class="date">'' @ d @
        ''</span>\<newline>        </div>\<newline>        ''\<close>]) simp

lemma entry_block_markup:
  "filter (\<lambda>c. c \<in> markup) (entry_block (e\<lparr>text := t\<rparr>) d) =
   filter (\<lambda>c. c \<in> markup) (entry_block e d)"
proof -
  have "filter (\<lambda>c. c \<in> markup) (html_escape s) = []" for s
    using html_escape_no_markup [of s] by (auto simp: filter_empty_conv)
  then show ?thesis by (simp add: entry_block_def Let_def)
qed

lemma report_markup:
  assumes "html_loop p es [] = Inr content"
  shows "\<exists>content'.
           html_loop p (map (\<lambda>e. e\<lparr>text := g e\<rparr>) es) [] = Inr content' \<and>
           filter (\<lambda>c. c \<in> markup) (html_template content') =
           filter (\<lambda>c. c \<in> markup) (html_template content)"
proof -
  let ?block = "\<lambda>e. entry_block e (strftime (the (p (timestamp e))))"
  let ?es' = "map (\<lambda>e. e\<lparr>text := g e\<rparr>) es"
  have all: "\<forall>e \<in> set es. p (timestamp e) \<noteq> None"
    and c: "content = concat (map ?block es)"
    using assms by (simp_all add: html_loop_eq split: if_splits)
  have l: "html_loop p ?es' [] = Inr (concat (map ?block ?es'))"
    using all by (simp add: html_loop_eq)
  have "filter (\<lambda>c. c \<in> markup) (concat (map ?block ?es')) =
      filter (\<lambda>c. c \<in> markup) (concat (map ?block es))"
    by (induction es) (simp_all add: entry_block_markup)
  then have "filter (\<lambda>c. c \<in> markup) (html_template (concat (map ?block ?es'))) =
      filter (\<lambda>c. c \<in> markup) (html_template content)"
    by (simp add: html_template_def c)
  then show ?thesis using l by blast
qed

section \<open>Evaluations used in the examples\<close>

lemma parse_bad: "parse_isoformat ''yesterday'' = None"
  by (simp add: parse_isoformat_def)

lemma parse_ok: "parse_isoformat ''2024-01-02T03:04:05'' =
    Some \<lparr>year = 2024, month = 1, day = 2, hour = 3, minute = 4, second = 5, microsecond = 0\<rparr>"
  by (simp add: parse_isoformat_def is_digit_def number_def valid_datetime_def days_in_month_def)

lemma strftime_ex: "strftime \<lparr>year = 2024, month = 1, day = 2, hour = 3, minute = 4, second = 5, microsecond = 0\<rparr> = ''2024-01-02 03:04:05''"
  by code_simp

lemma lower_ex: "lower ''Created'' = ''created''"
  by code_simp

lemma lower_markup_ex: "lower ''<b>Created</b>'' = ''<b>created</b>''"
  by code_simp

lemma escape_ex: \<open>html_escape ''<script>alert(1)</script>'' = ''&lt;script&gt;alert(1)&lt;/script&gt;''\<close>
  by (simp add: html_escape_chars escape_char_def)

lemma no_script:
  \<open>\<not> sublist ''<script>''
     (html_template
        (entry_block
           \<lparr>timestamp = ''2024-01-02T03:04:05'', operation = ''Created'',
             text = ''<script>alert(1)</script>''\<rparr>
           ''2024-01-02 03:04:05''))\<close>
  by (simp add: html_template_def html_template_head_def entry_block_def lower_ex escape_ex
      sublist_Cons_right)

section \<open>Loading\<close>

text \<open>
  C1. \<open>load_changelog\<close> returns the empty list when \<open>changelog.json\<close> does not exist and
  when \<open>json.load\<close> rejects it with \<open>JSONDecodeError\<close>. It does not do so for every corrupt
  file: a file that holds \<open>{}\<close> parses to a \<open>dict\<close>, which has no \<open>sort\<close> method, and the
  \<open>AttributeError\<close> leaves the function, since the \<open>except\<close> clause names only
  \<open>JSONDecodeError\<close> and \<open>FileNotFoundError\<close>. In the same way a file that is not UTF-8, an
  array with an element that is not an object and an array with an object without
  \<open>timestamp\<close> make it raise.
\<close>

theorem load_changelog_raises:
  "load_changelog Missing = Inr []
   \<and> load_changelog (Unreadable JSONDecodeError) = Inr []
   \<and> load_changelog NonArray = Inl AttributeError
   \<and> load_changelog (Unreadable UnicodeDecodeError) = Inl UnicodeDecodeError
   \<and> load_changelog (Array [NotObject]) = Inl TypeError
   \<and> load_changelog (Array [NoTimestamp]) = Inl KeyError"
  by simp

text \<open>
  C5. Whatever \<open>load_changelog\<close> returns is sorted by timestamp, descending: of two
  entries of the result, the one with the greater timestamp stands at the smaller index. The
  result holds the stored entries, each as often as it is stored.
\<close>

theorem load_sorted_descending:
  assumes "load_changelog d = Inr r"
  shows "sorted_wrt (\<lambda>a b. timestamp a \<ge> timestamp b) r
       \<and> (\<forall>i < length r. \<forall>j < length r. timestamp (r ! i) > timestamp (r ! j) \<longrightarrow> i < j)
       \<and> (\<forall>es. d = Entries es \<longrightarrow> mset r = mset es)"
proof -
  have s: "sorted_wrt (\<lambda>a b. timestamp b \<le> timestamp a) r"
    using assms by (rule load_changelog_descending)
  have "i < j" if "i < length r" "j < length r" "timestamp (r ! j) < timestamp (r ! i)" for i j
  proof (rule ccontr)
    assume "\<not> i < j"
    then have "j < i \<or> j = i" by auto
    then show False
    proof
      assume "j < i"
      then have "timestamp (r ! i) \<le> timestamp (r ! j)"
        using sorted_wrt_nth_less [OF s, of j i] that(1) by simp
      then show False using that(3) by simp
    next
      assume "j = i"
      then show False using that(3) by simp
    qed
  qed
  moreover have "mset r = mset es" if "d = Entries es" for es
    using assms that by (auto simp: mset_sort_reverse)
  ultimately show ?thesis using s by blast
qed

theorem load_sorted_descending_witness:
  "load_changelog
     (Entries
        [\<lparr>timestamp = ''2024-01-02T03:04:05'', operation = ''Created'', text = ''Initial release''\<rparr>,
         \<lparr>timestamp = ''2024-05-06T07:08:09.001234'', operation = ''Edited'', text = ''Fixed typo''\<rparr>]) =
   Inr
     [\<lparr>timestamp = ''2024-05-06T07:08:09.001234'', operation = ''Edited'', text = ''Fixed typo''\<rparr>,
      \<lparr>timestamp = ''2024-01-02T03:04:05'', operation = ''Created'', text = ''Initial release''\<rparr>]
   \<and> ''2024-01-02T03:04:05'' < ''2024-05-06T07:08:09.001234''
   \<and> (0::nat) < 1"
proof -
  let ?a = "\<lparr>timestamp = ''2024-01-02T03:04:05'', operation = ''Created'', text = ''Initial release''\<rparr>"
  let ?b = "\<lparr>timestamp = ''2024-05-06T07:08:09.001234'', operation = ''Edited'', text = ''Fixed typo''\<rparr>"
  have l: "load_changelog (Entries [?a, ?b]) = Inr [?b, ?a]"
    by (simp add: sort_reverse_def)
  have "\<forall>i < length [?b, ?a]. \<forall>j < length [?b, ?a].
      timestamp ([?b, ?a] ! i) > timestamp ([?b, ?a] ! j) \<longrightarrow> i < j"
    using load_sorted_descending [OF l] by blast
  then have "timestamp ([?b, ?a] ! 0) > timestamp ([?b, ?a] ! 1) \<longrightarrow> (0::nat) < 1"
    by simp
  then show ?thesis using l by simp
qed

section \<open>Validation\<close>

text \<open>
  C4. For every operation tag and every text whose trimmed form is empty, \<open>add_entry\<close> and
  \<open>edit_entry\<close> both show the input-error warning and return \<open>False\<close>, without reading or
  writing the document: the document and the report files are as before, whatever the
  document holds.
\<close>

theorem empty_text_rejected:
  assumes "strip txt = []"
  shows "add_entry now op txt w =
           (Inr False,
            w\<lparr>dialogs := dialogs w @
               [ShowWarning ''Input Error'' ''Changelog text cannot be empty.'']\<rparr>)
       \<and> edit_entry ts op txt w =
           (Inr False,
            w\<lparr>dialogs := dialogs w @
               [ShowWarning ''Input Error'' ''Changelog text cannot be empty.'']\<rparr>)
       \<and> document (snd (add_entry now op txt w)) = document w
       \<and> document (snd (edit_entry ts op txt w)) = document w"
  using assms by (simp add: add_entry_def edit_entry_def messagebox_def)

theorem empty_text_rejected_witness:
  "strip ''   '' = []
   \<and> add_entry \<lparr>year = 2024, month = 5, day = 6, hour = 7, minute = 8, second = 9, microsecond = 0\<rparr>
         ''Created'' ''   '' \<lparr>document = NonArray, dialogs = [], reports = []\<rparr> =
       (Inr False,
        \<lparr>document = NonArray,
         dialogs = [ShowWarning ''Input Error'' ''Changelog text cannot be empty.''],
         reports = []\<rparr>)
   \<and> edit_entry ''2024-01-02T03:04:05'' ''Edited'' ''   ''
         \<lparr>document = NonArray, dialogs = [], reports = []\<rparr> =
       (Inr False,
        \<lparr>document = NonArray,
         dialogs = [ShowWarning ''Input Error'' ''Changelog text cannot be empty.''],
         reports = []\<rparr>)"
  using empty_text_rejected [of "''   ''"
      "\<lparr>year = 2024, month = 5, day = 6, hour = 7, minute = 8, second = 9, microsecond = 0\<rparr>"
      "''Created''" "\<lparr>document = NonArray, dialogs = [], reports = []\<rparr>"
      "''2024-01-02T03:04:05''"]
    empty_text_rejected [of "''   ''"
      "\<lparr>year = 2024, month = 5, day = 6, hour = 7, minute = 8, second = 9, microsecond = 0\<rparr>"
      "''Edited''" "\<lparr>document = NonArray, dialogs = [], reports = []\<rparr>"
      "''2024-01-02T03:04:05''"]
  by (simp add: strip_def isspace_def)

section \<open>Appending, editing and deleting\<close>

text \<open>
  C6. For every operation tag and every text that is not empty after trimming, and every
  document that \<open>load_changelog\<close> can read, \<open>add_entry\<close> returns \<open>True\<close> and stores the loaded
  entries followed by a new one. A load after it returns a list that contains the new entry:
  its operation and text are the arguments, and its timestamp is the \<open>isoformat\<close> of the
  clock reading taken in the call, a string that reads back as that very date-time.
\<close>

theorem add_entry_then_load:
  assumes "load_changelog (document w) = Inr es" and "strip txt \<noteq> []" and "valid_datetime now"
  shows "add_entry now op txt w =
           (Inr True,
            w\<lparr>document :=
                 Entries (es @ [\<lparr>timestamp = isoformat now, operation = op, text = txt\<rparr>])\<rparr>)
       \<and> load_changelog (document (snd (add_entry now op txt w))) =
           Inr (sort_reverse timestamp
                  (es @ [\<lparr>timestamp = isoformat now, operation = op, text = txt\<rparr>]))
       \<and> \<lparr>timestamp = isoformat now, operation = op, text = txt\<rparr>
           \<in> set (sort_reverse timestamp
                    (es @ [\<lparr>timestamp = isoformat now, operation = op, text = txt\<rparr>]))
       \<and> mset (sort_reverse timestamp
                 (es @ [\<lparr>timestamp = isoformat now, operation = op, text = txt\<rparr>])) =
           mset es + {#\<lparr>timestamp = isoformat now, operation = op, text = txt\<rparr>#}
       \<and> parse_isoformat (isoformat now) = Some now"
  using assms
  by (simp add: add_entry_def save_changelog_def set_sort_reverse mset_sort_reverse
      parse_isoformat_isoformat)

theorem add_entry_then_load_witness:
  "add_entry \<lparr>year = 2024, month = 5, day = 6, hour = 7, minute = 8, second = 9, microsecond = 1234\<rparr>
     ''Edited'' ''Fixed typo''
     \<lparr>document = Entries
        [\<lparr>timestamp = ''2024-01-02T03:04:05'', operation = ''Created'', text = ''Initial release''\<rparr>],
      dialogs = [], reports = []\<rparr> =
   (Inr True,
    \<lparr>document = Entries
        [\<lparr>timestamp = ''2024-01-02T03:04:05'', operation = ''Created'', text = ''Initial release''\<rparr>,
         \<lparr>timestamp = ''2024-05-06T07:08:09.001234'', operation = ''Edited'', text = ''Fixed typo''\<rparr>],
      dialogs = [], reports = []\<rparr>)
   \<and> load_changelog
       (Entries
          [\<lparr>timestamp = ''2024-01-02T03:04:05'', operation = ''Created'', text = ''Initial release''\<rparr>,
           \<lparr>timestamp = ''2024-05-06T07:08:09.001234'', operation = ''Edited'', text = ''Fixed typo''\<rparr>]) =
     Inr
       [\<lparr>timestamp = ''2024-05-06T07:08:09.001234'', operation = ''Edited'', text = ''Fixed typo''\<rparr>,
        \<lparr>timestamp = ''2024-01-02T03:04:05'', operation = ''Created'', text = ''Initial release''\<rparr>]
   \<and> parse_isoformat ''2024-05-06T07:08:09.001234'' =
     Some \<lparr>year = 2024, month = 5, day = 6, hour = 7, minute = 8, second = 9, microsecond = 1234\<rparr>"
proof -
  let ?a = "\<lparr>timestamp = ''2024-01-02T03:04:05'', operation = ''Created'', text = ''Initial release''\<rparr>"
  let ?now = "\<lparr>year = 2024, month = 5, day = 6, hour = 7, minute = 8, second = 9, microsecond = 1234\<rparr>"
  let ?w = "\<lparr>document = Entries [?a], dialogs = [], reports = []\<rparr>"
  have l: "load_changelog (document ?w) = Inr [?a]"
    by (simp add: sort_reverse_def)
  have s: "strip ''Fixed typo'' \<noteq> []"
    by (simp add: strip_def isspace_def)
  have v: "valid_datetime ?now"
    by (simp add: valid_datetime_def days_in_month_def)
  have iso: "isoformat ?now = ''2024-05-06T07:08:09.001234''"
    by code_simp
  show ?thesis
    using add_entry_then_load [OF l s v, of "''Edited''"]
    by (simp add: iso sort_reverse_def)
qed

text \<open>
  C2. For every document that \<open>load_changelog\<close> can read, every timestamp and every text
  that is not empty after trimming: if some loaded entry has the timestamp, \<open>edit_entry\<close>
  replaces the operation and the text of the first such entry, keeps its timestamp and
  every other entry, stores the list and returns \<open>True\<close>, and a load after it returns that
  list; if no loaded entry has the timestamp, \<open>edit_entry\<close> shows the error, returns \<open>False\<close>
  and writes nothing.
\<close>

theorem edit_entry_first_match:
  assumes "load_changelog (document w) = Inr es" and "strip txt \<noteq> []"
  shows "(ts \<in> timestamp ` set es \<longrightarrow>
            (\<exists>i < length es.
               timestamp (es ! i) = ts \<and> (\<forall>j < i. timestamp (es ! j) \<noteq> ts) \<and>
               edit_entry ts op txt w =
                 (Inr True,
                  w\<lparr>document := Entries (es[i := (es ! i)\<lparr>operation := op, text := txt\<rparr>])\<rparr>) \<and>
               load_changelog (document (snd (edit_entry ts op txt w))) =
                 Inr (es[i := (es ! i)\<lparr>operation := op, text := txt\<rparr>])))
       \<and> (ts \<notin> timestamp ` set es \<longrightarrow>
            edit_entry ts op txt w =
              (Inr False,
               w\<lparr>dialogs := dialogs w @
                  [ShowError ''Error''
                     ''Could not find the entry to edit. It may have been deleted.'']\<rparr>))"
proof (intro conjI impI)
  assume "ts \<in> timestamp ` set es"
  then obtain i where i: "i < length es" "timestamp (es ! i) = ts"
    "\<forall>j < i. timestamp (es ! j) \<noteq> ts"
    "edit_loop ts op txt es = (True, es[i := (es ! i)\<lparr>operation := op, text := txt\<rparr>])"
    using edit_loop_found by blast
  let ?es' = "es[i := (es ! i)\<lparr>operation := op, text := txt\<rparr>]"
  have e: "edit_entry ts op txt w = (Inr True, w\<lparr>document := Entries ?es'\<rparr>)"
    using assms i(4) by (simp add: edit_entry_def save_changelog_def)
  have "sorted_wrt (\<lambda>a b. timestamp b \<le> timestamp a) ?es'"
    using load_changelog_descending [OF assms(1)] i(1)
    by (intro sorted_wrt_update_same_key) simp_all
  then have "load_changelog (Entries ?es') = Inr ?es'"
    by (rule load_changelog_Entries_id)
  then have "load_changelog (document (snd (edit_entry ts op txt w))) = Inr ?es'"
    by (simp add: e)
  then show "\<exists>i < length es.
     timestamp (es ! i) = ts \<and> (\<forall>j < i. timestamp (es ! j) \<noteq> ts) \<and>
     edit_entry ts op txt w =
       (Inr True, w\<lparr>document := Entries (es[i := (es ! i)\<lparr>operation := op, text := txt\<rparr>])\<rparr>) \<and>
     load_changelog (document (snd (edit_entry ts op txt w))) =
       Inr (es[i := (es ! i)\<lparr>operation := op, text := txt\<rparr>])"
    using i(1-3) e by blast
next
  assume "ts \<notin> timestamp ` set es"
  then show "edit_entry ts op txt w =
      (Inr False,
       w\<lparr>dialogs := dialogs w @
          [ShowError ''Error'' ''Could not find the entry to edit. It may have been deleted.'']\<rparr>)"
    using assms by (simp add: edit_entry_def edit_loop_not_found messagebox_def)
qed

theorem edit_entry_first_match_witness:
  "edit_entry ''2024-01-02T03:04:05'' ''Edited'' ''new text''
     \<lparr>document = Entries
        [\<lparr>timestamp = ''2024-01-02T03:04:05'', operation = ''Created'', text = ''Initial release''\<rparr>,
         \<lparr>timestamp = ''2024-05-06T07:08:09.001234'', operation = ''Edited'', text = ''Fixed typo''\<rparr>],
      dialogs = [], reports = []\<rparr> =
   (Inr True,
    \<lparr>document = Entries
        [\<lparr>timestamp = ''2024-05-06T07:08:09.001234'', operation = ''Edited'', text = ''Fixed typo''\<rparr>,
         \<lparr>timestamp = ''2024-01-02T03:04:05'', operation = ''Edited'', text = ''new text''\<rparr>],
      dialogs = [], reports = []\<rparr>)
   \<and> edit_entry ''nonexistent'' ''Edited'' ''new text''
     \<lparr>document = Entries
        [\<lparr>timestamp = ''2024-01-02T03:04:05'', operation = ''Created'', text = ''Initial release''\<rparr>,
         \<lparr>timestamp = ''2024-05-06T07:08:09.001234'', operation = ''Edited'', text = ''Fixed typo''\<rparr>],
      dialogs = [], reports = []\<rparr> =
   (Inr False,
    \<lparr>document = Entries
        [\<lparr>timestamp = ''2024-01-02T03:04:05'', operation = ''Created'', text = ''Initial release''\<rparr>,
         \<lparr>timestamp = ''2024-05-06T07:08:09.001234'', operation = ''Edited'', text = ''Fixed typo''\<rparr>],
      dialogs =
        [ShowError ''Error'' ''Could not find the entry to edit. It may have been deleted.''],
      reports = []\<rparr>)"
proof -
  let ?a = "\<lparr>timestamp = ''2024-01-02T03:04:05'', operation = ''Created'', text = ''Initial release''\<rparr>"
  let ?b = "\<lparr>timestamp = ''2024-05-06T07:08:09.001234'', operation = ''Edited'', text = ''Fixed typo''\<rparr>"
  let ?w = "\<lparr>document = Entries [?a, ?b], dialogs = [], reports = []\<rparr>"
  have l: "load_changelog (document ?w) = Inr [?b, ?a]"
    by (simp add: sort_reverse_def)
  have s: "strip ''new text'' \<noteq> []"
    by (simp add: strip_def isspace_def)
  have "''2024-01-02T03:04:05'' \<in> timestamp ` set [?b, ?a]" by simp
  then obtain i where i: "i < length [?b, ?a]"
    "timestamp ([?b, ?a] ! i) = ''2024-01-02T03:04:05''"
    "edit_entry ''2024-01-02T03:04:05'' ''Edited'' ''new text'' ?w =
       (Inr True,
        ?w\<lparr>document :=
             Entries ([?b, ?a][i := ([?b, ?a] ! i)\<lparr>operation := ''Edited'', text := ''new text''\<rparr>])\<rparr>)"
    using edit_entry_first_match [OF l s, of "''2024-01-02T03:04:05''" "''Edited''"] by blast
  have "i = 1" using i(1,2) by (cases i) auto
  then have found: "edit_entry ''2024-01-02T03:04:05'' ''Edited'' ''new text'' ?w =
      (Inr True, \<lparr>document = Entries [?b, ?a\<lparr>operation := ''Edited'', text := ''new text''\<rparr>],
         dialogs = [], reports = []\<rparr>)"
    using i(3) by simp
  have "''nonexistent'' \<notin> timestamp ` set [?b, ?a]" by simp
  then have "edit_entry ''nonexistent'' ''Edited'' ''new text'' ?w =
      (Inr False,
       ?w\<lparr>dialogs := dialogs ?w @
          [ShowError ''Error'' ''Could not find the entry to edit. It may have been deleted.'']\<rparr>)"
    using edit_entry_first_match [OF l s, of "''nonexistent''" "''Edited''"] by blast
  then show ?thesis using found by simp
qed

text \<open>
  C3. For every document that \<open>load_changelog\<close> can read and every timestamp,
  \<open>delete_entry\<close> stores the loaded entries without those that have the timestamp, and
  returns \<open>True\<close>, if and only if that list is shorter than the loaded one, which is the case
  exactly when some loaded entry has the timestamp. Otherwise it shows the error, returns
  \<open>False\<close> and leaves the document as it is.
\<close>

theorem delete_entry_by_timestamp:
  assumes "load_changelog (document w) = Inr es"
  shows "delete_entry ts w =
           (if length (filter (\<lambda>e. timestamp e \<noteq> ts) es) \<noteq> length es
            then (Inr True, w\<lparr>document := Entries (filter (\<lambda>e. timestamp e \<noteq> ts) es)\<rparr>)
            else (Inr False,
                  w\<lparr>dialogs := dialogs w @
                     [ShowError ''Error'' ''Could not find the entry to delete.'']\<rparr>))
       \<and> (length (filter (\<lambda>e. timestamp e \<noteq> ts) es) \<noteq> length es \<longleftrightarrow> ts \<in> timestamp ` set es)
       \<and> ts \<notin> timestamp ` set (filter (\<lambda>e. timestamp e \<noteq> ts) es)
       \<and> (ts \<notin> timestamp ` set es \<longrightarrow> document (snd (delete_entry ts w)) = document w)"
proof -
  have iff: "length (filter (\<lambda>e. timestamp e \<noteq> ts) es) \<noteq> length es \<longleftrightarrow> ts \<in> timestamp ` set es"
    by (auto simp: filter_length_eq_iff)
  have del: "delete_entry ts w =
           (if length (filter (\<lambda>e. timestamp e \<noteq> ts) es) \<noteq> length es
            then (Inr True, w\<lparr>document := Entries (filter (\<lambda>e. timestamp e \<noteq> ts) es)\<rparr>)
            else (Inr False,
                  w\<lparr>dialogs := dialogs w @
                     [ShowError ''Error'' ''Could not find the entry to delete.'']\<rparr>))"
    using assms by (simp add: delete_entry_def save_changelog_def messagebox_def Let_def)
  have "document (snd (delete_entry ts w)) = document w" if "ts \<notin> timestamp ` set es"
    using that iff by (simp add: del)
  then show ?thesis using iff del by auto
qed

theorem delete_entry_by_timestamp_witness:
  "delete_entry ''2024-01-02T03:04:05''
     \<lparr>document = Entries
        [\<lparr>timestamp = ''2024-01-02T03:04:05'', operation = ''Created'', text = ''Initial release''\<rparr>,
         \<lparr>timestamp = ''2024-05-06T07:08:09.001234'', operation = ''Edited'', text = ''Fixed typo''\<rparr>],
      dialogs = [], reports = []\<rparr> =
   (Inr True,
    \<lparr>document = Entries
        [\<lparr>timestamp = ''2024-05-06T07:08:09.001234'', operation = ''Edited'', text = ''Fixed typo''\<rparr>],
      dialogs = [], reports = []\<rparr>)
   \<and> delete_entry ''nonexistent''
     \<lparr>document = Entries
        [\<lparr>timestamp = ''2024-01-02T03:04:05'', operation = ''Created'', text = ''Initial release''\<rparr>,
         \<lparr>timestamp = ''2024-05-06T07:08:09.001234'', operation = ''Edited'', text = ''Fixed typo''\<rparr>],
      dialogs = [], reports = []\<rparr> =
   (Inr False,
    \<lparr>document = Entries
        [\<lparr>timestamp = ''2024-01-02T03:04:05'', operation = ''Created'', text = ''Initial release''\<rparr>,
         \<lparr>timestamp = ''2024-05-06T07:08:09.001234'', operation = ''Edited'', text = ''Fixed typo''\<rparr>],
      dialogs = [ShowError ''Error'' ''Could not find the entry to delete.''],
      reports = []\<rparr>)"
proof -
  let ?a = "\<lparr>timestamp = ''2024-01-02T03:04:05'', operation = ''Created'', text = ''Initial release''\<rparr>"
  let ?b = "\<lparr>timestamp = ''2024-05-06T07:08:09.001234'', operation = ''Edited'', text = ''Fixed typo''\<rparr>"
  let ?w = "\<lparr>document = Entries [?a, ?b], dialogs = [], reports = []\<rparr>"
  have l: "load_changelog (document ?w) = Inr [?b, ?a]"
    by (simp add: sort_reverse_def)
  show ?thesis
    using delete_entry_by_timestamp [OF l, of "''2024-01-02T03:04:05''"]
      delete_entry_by_timestamp [OF l, of "''nonexistent''"]
    by simp
qed

section \<open>The report\<close>

text \<open>
  C8. When \<open>load_changelog\<close> returns the empty list, \<open>generate_html_file\<close> shows the
  \<open>No Data\<close> message and returns: no report file is written, whatever the save-as dialog
  would have returned.
\<close>

theorem empty_changelog_not_exported:
  assumes "load_changelog (document w) = Inr []"
  shows "generate_html_file fromisoformat filepath write_error w =
           (Inr (),
            w\<lparr>dialogs := dialogs w @
               [ShowInfo ''No Data'' ''Changelog is empty. Add some entries first.'']\<rparr>)
       \<and> reports (snd (generate_html_file fromisoformat filepath write_error w)) = reports w"
  using assms by (simp add: generate_html_file_def messagebox_def)

theorem empty_changelog_not_exported_witness:
  "load_changelog Missing = Inr []
   \<and> generate_html_file parse_isoformat ''changelog.html'' None
       \<lparr>document = Missing, dialogs = [], reports = []\<rparr> =
     (Inr (),
      \<lparr>document = Missing,
       dialogs = [ShowInfo ''No Data'' ''Changelog is empty. Add some entries first.''],
       reports = []\<rparr>)"
  using empty_changelog_not_exported
    [of "\<lparr>document = Missing, dialogs = [], reports = []\<rparr>" parse_isoformat
      "''changelog.html''" None]
  by simp

text \<open>
  C7. When the report is written, it is the template around the blocks of the entries, one
  block an entry and nothing else, and for every entry it contains the span of class
  \<open>text\<close> around the escaped text of the entry. The escaped text is the text with each of
  \<open>&\<close>, \<open><\<close>, \<open>>\<close>, the double quote and the single quote replaced by its character
  reference; it contains none of \<open><\<close>, \<open>>\<close> and the quotes. So no text adds markup to the
  report: whatever texts are put in place of the texts of the entries, the report is
  written again and the sequence of its markup characters is the same. In the example, the
  text \<open><script>alert(1)</script>\<close> leaves no \<open><script>\<close> in the report.
\<close>

theorem entry_text_escaped:
  assumes "load_changelog (document w) = Inr es"
    and "html_loop fromisoformat es [] = Inr content"
    and "filepath \<noteq> []" and "e \<in> set es"
  shows \<open>generate_html_file fromisoformat filepath None w =
           (Inr (),
            w\<lparr>reports := AList.update filepath (html_template content) (reports w),
              dialogs := dialogs w @
                [ShowInfo ''Success''
                   (''Changelog successfully generated at:\<newline>'' @ filepath)]\<rparr>)
       \<and> sublist (''<span class="text">'' @ html_escape (text e) @ ''</span>'')
           (html_template content)
       \<and> html_escape (text e) = concat (map escape_char (text e))
       \<and> set (html_escape (text e)) \<inter> markup = {}
       \<and> filter (\<lambda>c. c \<in> markup) (entry_block (e\<lparr>text := t\<rparr>) d) =
           filter (\<lambda>c. c \<in> markup) (entry_block e d)
       \<and> content =
           concat (map (\<lambda>e. entry_block e (strftime (the (fromisoformat (timestamp e))))) es)
       \<and> (\<exists>content'.
             html_loop fromisoformat (map (\<lambda>e. e\<lparr>text := g e\<rparr>) es) [] = Inr content' \<and>
             filter (\<lambda>c. c \<in> markup) (html_template content') =
             filter (\<lambda>c. c \<in> markup) (html_template content))\<close>
proof -
  have "es \<noteq> []" using assms(4) by auto
  then have g: "generate_html_file fromisoformat filepath None w =
           (Inr (),
            w\<lparr>reports := AList.update filepath (html_template content) (reports w),
              dialogs := dialogs w @
                [ShowInfo ''Success''
                   (''Changelog successfully generated at:\<newline>'' @ filepath)]\<rparr>)"
    using assms by (intro generate_html_file_written)
  obtain d' where "sublist (entry_block e (strftime d')) (html_template content)"
    using html_loop_block [OF assms(2,4)] by blast
  then have "sublist (''<span class=\"text\">'' @ html_escape (text e) @ ''</span>'')
      (html_template content)"
    using sublist_text_span sublist_trans by blast
  moreover have "content =
      concat (map (\<lambda>e. entry_block e (strftime (the (fromisoformat (timestamp e))))) es)"
    using assms(2) by (simp add: html_loop_eq split: if_splits)
  moreover note report_markup [OF assms(2), of g]
  ultimately show ?thesis
    using g by (simp add: html_escape_chars [symmetric] html_escape_no_markup entry_block_markup)
qed

theorem entry_text_escaped_witness:
  \<open>generate_html_file parse_isoformat ''changelog.html'' None
     \<lparr>document = Entries
        [\<lparr>timestamp = ''2024-01-02T03:04:05'', operation = ''Created'',
          text = ''<script>alert(1)</script>''\<rparr>],
      dialogs = [], reports = []\<rparr> =
   (Inr (),
    \<lparr>document = Entries
        [\<lparr>timestamp = ''2024-01-02T03:04:05'', operation = ''Created'',
          text = ''<script>alert(1)</script>''\<rparr>],
      dialogs =
        [ShowInfo ''Success'' ''Changelog successfully generated at:\<newline>changelog.html''],
      reports =
        [(''changelog.html'',
          html_template
            (entry_block
               \<lparr>timestamp = ''2024-01-02T03:04:05'', operation = ''Created'',
                 text = ''<script>alert(1)</script>''\<rparr>
               ''2024-01-02 03:04:05''))]\<rparr>)
   \<and> sublist ''<span class="text">&lt;script&gt;alert(1)&lt;/script&gt;</span>''
       (html_template
          (entry_block
             \<lparr>timestamp = ''2024-01-02T03:04:05'', operation = ''Created'',
               text = ''<script>alert(1)</script>''\<rparr>
             ''2024-01-02 03:04:05''))
   \<and> \<not> sublist ''<script>''
       (html_template
          (entry_block
             \<lparr>timestamp = ''2024-01-02T03:04:05'', operation = ''Created'',
               text = ''<script>alert(1)</script>''\<rparr>
             ''2024-01-02 03:04:05''))\<close>
proof -
  let ?e = \<open>\<lparr>timestamp = ''2024-01-02T03:04:05'', operation = ''Created'',
      text = ''<script>alert(1)</script>''\<rparr>\<close>
  let ?w = "\<lparr>document = Entries [?e], dialogs = [], reports = []\<rparr>"
  have l: "load_changelog (document ?w) = Inr [?e]"
    by (simp add: sort_reverse_def)
  have h: "html_loop parse_isoformat [?e] [] = Inr (entry_block ?e ''2024-01-02 03:04:05'')"
    by (simp del: One_nat_def add: parse_ok strftime_ex)
  have p: "''changelog.html'' \<noteq> []" by simp
  have m: "?e \<in> set [?e]" by simp
  note t = entry_text_escaped [OF l h p m]
  show ?thesis
    using t [THEN conjunct1] t [THEN conjunct2, THEN conjunct1] no_script
    by (simp add: escape_ex)
qed

text \<open>
  C9. When the report is written, it contains, for every entry, the span of class \<open>tag\<close>
  with the operation of the entry as it is stored, not escaped, as the label, and in lower
  case, not escaped either, as the second class name. In the example, the operation
  \<open><b>Created</b>\<close> stands in the report with its angle brackets.
\<close>

theorem operation_inserted_unescaped:
  assumes "load_changelog (document w) = Inr es"
    and "html_loop fromisoformat es [] = Inr content"
    and "filepath \<noteq> []" and "e \<in> set es"
  shows \<open>generate_html_file fromisoformat filepath None w =
           (Inr (),
            w\<lparr>reports := AList.update filepath (html_template content) (reports w),
              dialogs := dialogs w @
                [ShowInfo ''Success''
                   (''Changelog successfully generated at:\<newline>'' @ filepath)]\<rparr>)
       \<and> sublist
           (''<span class="tag '' @ lower (operation e) @ ''">'' @ operation e @ ''</span>'')
           (html_template content)\<close>
proof -
  have "es \<noteq> []" using assms(4) by auto
  then have g: "generate_html_file fromisoformat filepath None w =
           (Inr (),
            w\<lparr>reports := AList.update filepath (html_template content) (reports w),
              dialogs := dialogs w @
                [ShowInfo ''Success''
                   (''Changelog successfully generated at:\<newline>'' @ filepath)]\<rparr>)"
    using assms by (intro generate_html_file_written)
  obtain d' where "sublist (entry_block e (strftime d')) (html_template content)"
    using html_loop_block [OF assms(2,4)] by blast
  then have "sublist
      (''<span class=\"tag '' @ lower (operation e) @ ''\">'' @ operation e @ ''</span>'')
      (html_template content)"
    using sublist_tag_span sublist_trans by blast
  then show ?thesis using g by simp
qed

theorem operation_inserted_unescaped_witness:
  \<open>generate_html_file parse_isoformat ''changelog.html'' None
     \<lparr>document = Entries
        [\<lparr>timestamp = ''2024-01-02T03:04:05'', operation = ''<b>Created</b>'',
          text = ''Initial release''\<rparr>],
      dialogs = [], reports = []\<rparr> =
   (Inr (),
    \<lparr>document = Entries
        [\<lparr>timestamp = ''2024-01-02T03:04:05'', operation = ''<b>Created</b>'',
          text = ''Initial release''\<rparr>],
      dialogs =
        [ShowInfo ''Success'' ''Changelog successfully generated at:\<newline>changelog.html''],
      reports =
        [(''changelog.html'',
          html_template
            (entry_block
               \<lparr>timestamp = ''2024-01-02T03:04:05'', operation = ''<b>Created</b>'',
                 text = ''Initial release''\<rparr>
               ''2024-01-02 03:04:05''))]\<rparr>)
   \<and> sublist ''<span class="tag <b>created</b>"><b>Created</b></span>''
       (html_template
          (entry_block
             \<lparr>timestamp = ''2024-01-02T03:04:05'', operation = ''<b>Created</b>'',
               text = ''Initial release''\<rparr>
             ''2024-01-02 03:04:05''))\<close>
proof -
  let ?e = \<open>\<lparr>timestamp = ''2024-01-02T03:04:05'', operation = ''<b>Created</b>'',
      text = ''Initial release''\<rparr>\<close>
  let ?w = "\<lparr>document = Entries [?e], dialogs = [], reports = []\<rparr>"
  have l: "load_changelog (document ?w) = Inr [?e]"
    by (simp add: sort_reverse_def)
  have h: "html_loop parse_isoformat [?e] [] = Inr (entry_block ?e ''2024-01-02 03:04:05'')"
    by (simp del: One_nat_def add: parse_ok strftime_ex)
  have p: "''changelog.html'' \<noteq> []" by simp
  have m: "?e \<in> set [?e]" by simp
  show ?thesis
    using operation_inserted_unescaped [OF l h p m]
    by (simp add: lower_markup_ex)
qed

text \<open>
  C10. For a changelog that is not empty: if the timestamp of some entry does not parse,
  \<open>generate_html_file\<close> ends with the \<open>ValueError\<close> of \<open>fromisoformat\<close>, which nothing
  catches, with no message box shown and no report file written; if every timestamp
  parses, it returns.
\<close>

theorem unparsable_timestamp_raises:
  assumes "load_changelog (document w) = Inr es" and "es \<noteq> []"
  shows "((\<exists>e \<in> set es. fromisoformat (timestamp e) = None) \<longrightarrow>
            generate_html_file fromisoformat filepath write_error w = (Inl ValueError, w))
       \<and> ((\<forall>e \<in> set es. fromisoformat (timestamp e) \<noteq> None) \<longrightarrow>
            fst (generate_html_file fromisoformat filepath write_error w) = Inr ())"
  using assms
  by (auto simp: generate_html_file_def html_loop_eq split: option.splits)

theorem unparsable_timestamp_raises_witness:
  "parse_isoformat ''yesterday'' = None
   \<and> generate_html_file parse_isoformat ''changelog.html'' None
       \<lparr>document = Entries
          [\<lparr>timestamp = ''yesterday'', operation = ''Created'', text = ''Initial release''\<rparr>],
        dialogs = [], reports = []\<rparr> =
     (Inl ValueError,
      \<lparr>document = Entries
          [\<lparr>timestamp = ''yesterday'', operation = ''Created'', text = ''Initial release''\<rparr>],
        dialogs = [], reports = []\<rparr>)
   \<and> fst (generate_html_file parse_isoformat ''changelog.html'' None
       \<lparr>document = Entries
          [\<lparr>timestamp = ''2024-01-02T03:04:05'', operation = ''Created'',
            text = ''Initial release''\<rparr>],
        dialogs = [], reports = []\<rparr>) = Inr ()"
proof -
  let ?bad = "\<lparr>timestamp = ''yesterday'', operation = ''Created'', text = ''Initial release''\<rparr>"
  let ?good = "\<lparr>timestamp = ''2024-01-02T03:04:05'', operation = ''Created'',
            text = ''Initial release''\<rparr>"
  have 1: "load_changelog (document \<lparr>document = Entries [?bad], dialogs = [], reports = []\<rparr>) =
      Inr [?bad]"
    by (simp add: sort_reverse_def)
  have 2: "load_changelog (document \<lparr>document = Entries [?good], dialogs = [], reports = []\<rparr>) =
      Inr [?good]"
    by (simp add: sort_reverse_def)
  show ?thesis
    using unparsable_timestamp_raises [OF 1, of parse_isoformat "''changelog.html''" None]
      unparsable_timestamp_raises [OF 2, of parse_isoformat "''changelog.html''" None]
    by (simp add: parse_ok parse_bad)
qed

end
